theory Spec2Isabelle
  imports Complex_Main
begin

unbundle bit_operations_syntax

section \<open>JavaScript numbers\<close>

text \<open>
  Every numeric argument of \<^verbatim>\<open>midi-synths.js\<close> is a JavaScript number: a finite
  value, one of the two infinities, or NaN. A finite value is kept as the exact rational
  it denotes, and negative zero is identified with zero. \<^verbatim>\<open>Math.floor\<close>,
  \<^verbatim>\<open>Math.min\<close>, \<^verbatim>\<open>Math.max\<close> and the comparisons are exact on doubles. Addition is
  modelled as exact addition, which is what a double addition computes whenever the sum is
  representable: so for \<^verbatim>\<open>clamped + 8192\<close> (integers of at most 14 bits), for
  \<^verbatim>\<open>x - 1\<close> with \<open>1 \<le> x \<le> 16\<close>, and for the status byte of an endpoint whose channel is
  an integer. For a fractional channel JavaScript rounds the status byte and the model does
  not; the value of such a status byte enters no theorem.
\<close>

datatype jsnum = Fin rat | PInf | NInf | NaN

fun js_lt :: "jsnum \<Rightarrow> jsnum \<Rightarrow> bool" where
  "js_lt NaN _ = False"
| "js_lt _ NaN = False"
| "js_lt (Fin a) (Fin b) = (a < b)"
| "js_lt _ NInf = False"
| "js_lt NInf _ = True"
| "js_lt PInf _ = False"
| "js_lt (Fin a) PInf = True"

definition js_ge :: "jsnum \<Rightarrow> jsnum \<Rightarrow> bool" where
  "js_ge a b = (a \<noteq> NaN \<and> b \<noteq> NaN \<and> \<not> js_lt a b)"

fun Math_floor :: "jsnum \<Rightarrow> jsnum" where
  "Math_floor (Fin r) = Fin (of_int \<lfloor>r\<rfloor>)"
| "Math_floor x = x"

definition Math_min :: "jsnum \<Rightarrow> jsnum \<Rightarrow> jsnum" where
  "Math_min a b = (if a = NaN \<or> b = NaN then NaN else if js_lt b a then b else a)"

definition Math_max :: "jsnum \<Rightarrow> jsnum \<Rightarrow> jsnum" where
  "Math_max a b = (if a = NaN \<or> b = NaN then NaN else if js_lt a b then b else a)"

fun js_add :: "jsnum \<Rightarrow> jsnum \<Rightarrow> jsnum" where
  "js_add NaN _ = NaN"
| "js_add _ NaN = NaN"
| "js_add (Fin a) (Fin b) = Fin (a + b)"
| "js_add PInf NInf = NaN"
| "js_add NInf PInf = NaN"
| "js_add PInf _ = PInf"
| "js_add NInf _ = NInf"
| "js_add (Fin a) b = b"

fun js_neg :: "jsnum \<Rightarrow> jsnum" where
  "js_neg (Fin a) = Fin (- a)"
| "js_neg PInf = NInf"
| "js_neg NInf = PInf"
| "js_neg NaN = NaN"

definition js_sub :: "jsnum \<Rightarrow> jsnum \<Rightarrow> jsnum" where
  "js_sub a b = js_add a (js_neg b)"

text \<open>
  The bitwise operators first convert their operands with ToInt32: NaN and the infinities
  become 0, a finite value is truncated toward zero and reduced modulo \<open>2^32\<close> into the
  signed range. \<^verbatim>\<open>>>\<close> shifts arithmetically by the low five bits of its right operand.
\<close>

definition trunc :: "rat \<Rightarrow> int" where
  "trunc r = (if 0 \<le> r then \<lfloor>r\<rfloor> else \<lceil>r\<rceil>)"

fun ToInt32 :: "jsnum \<Rightarrow> int" where
  "ToInt32 (Fin r) =
     (let m = trunc r mod 2 ^ 32 in if 2 ^ 31 \<le> m then m - 2 ^ 32 else m)"
| "ToInt32 _ = 0"

definition js_and :: "jsnum \<Rightarrow> jsnum \<Rightarrow> jsnum" where
  "js_and a b = Fin (of_int (ToInt32 a AND ToInt32 b))"

definition js_shr :: "jsnum \<Rightarrow> jsnum \<Rightarrow> jsnum" where
  "js_shr a b = Fin (of_int (drop_bit (nat (ToInt32 b mod 32)) (ToInt32 a)))"

text \<open>A reference is \<^verbatim>\<open>null\<close>, \<^verbatim>\<open>undefined\<close> or an object; only an object is truthy.\<close>

datatype 'a jsref = Null | Undefined | Obj 'a

fun truthy :: "'a jsref \<Rightarrow> bool" where
  "truthy (Obj _) = True"
| "truthy _ = False"

section \<open>The output port and the device manager\<close>

text \<open>
  A \<^verbatim>\<open>MIDIOutput\<close> belongs to the platform. The library reads its name and calls its
  \<^verbatim>\<open>send\<close>; the model identifies a port by its id and records each message handed
  to \<^verbatim>\<open>send\<close>.
\<close>

record MIDIOutput =
  port_id :: string
  name :: string

record MIDIAccess =
  outputs :: "MIDIOutput list"
  onstatechange :: bool

text \<open>
  \<^verbatim>\<open>onStateChange\<close> is the caller's callback slot; \<open>notified\<close> counts its invocations.
\<close>

record MidiManager =
  midiAccess :: "MIDIAccess jsref"
  midiOutput :: "MIDIOutput jsref"
  devices :: "MIDIOutput list"
  onStateChange :: bool
  notified :: nat

definition new_MidiManager :: MidiManager where
  "new_MidiManager =
     \<lparr>midiAccess = Null, midiOutput = Null, devices = [], onStateChange = False,
      notified = 0\<rparr>"

definition updateDeviceList :: "MidiManager \<Rightarrow> MidiManager" where
  "updateDeviceList m =
     (case midiAccess m of
        Obj a \<Rightarrow> m\<lparr>devices := outputs a\<rparr>
      | _ \<Rightarrow> m\<lparr>devices := []\<rparr>)"

text \<open>
  What the platform answers to \<^verbatim>\<open>initialize\<close>: \<^verbatim>\<open>navigator.requestMIDIAccess\<close> is
  missing, its promise rejects, or it resolves to an access object.
\<close>

datatype navigator = Unsupported | Denied | Granted MIDIAccess

datatype error = NotSupported | AccessDenied | TypeError

text \<open>
  The body of the \<^verbatim>\<open>try\<close> block: the state it leaves and the exception it throws, if
  any. Both throws come before the first assignment.
\<close>

fun initialize_try :: "navigator \<Rightarrow> MidiManager \<Rightarrow> MidiManager \<times> error option" where
  "initialize_try Unsupported m = (m, Some NotSupported)"
| "initialize_try Denied m = (m, Some AccessDenied)"
| "initialize_try (Granted a) m =
     (let m1 = m\<lparr>midiAccess := Obj a\<rparr>;
          m2 = updateDeviceList m1;
          m3 = m2\<lparr>midiAccess := Obj (a\<lparr>onstatechange := True\<rparr>)\<rparr>
      in (m3, None))"

text \<open>
  \<^verbatim>\<open>initialize\<close> with its \<^verbatim>\<open>catch\<close>: the final state, the value the promise resolves to
  and the exception that leaves the method (always none).
\<close>

definition initialize :: "navigator \<Rightarrow> MidiManager \<Rightarrow> MidiManager \<times> bool \<times> error option" where
  "initialize nav m =
     (case initialize_try nav m of
        (m', None) \<Rightarrow> (m', True, None)
      | (m', Some e) \<Rightarrow> (m', False, None))"

text \<open>
  The handler installed by \<^verbatim>\<open>initialize\<close>, run when the platform reports the new list
  of outputs.
\<close>

definition statechange :: "MIDIOutput list \<Rightarrow> MidiManager \<Rightarrow> MidiManager" where
  "statechange outs m =
     (case midiAccess m of
        Obj a \<Rightarrow>
          (if onstatechange a then
             (let m1 = updateDeviceList (m\<lparr>midiAccess := Obj (a\<lparr>outputs := outs\<rparr>)\<rparr>)
              in if onStateChange m1 then m1\<lparr>notified := notified m1 + 1\<rparr> else m1)
           else m\<lparr>midiAccess := Obj (a\<lparr>outputs := outs\<rparr>)\<rparr>)
      | _ \<Rightarrow> m)"

definition getDevices :: "MidiManager \<Rightarrow> MIDIOutput list" where
  "getDevices m = devices m"

text \<open>
  \<^verbatim>\<open>this.devices[deviceIndex]\<close>: an array read yields \<^verbatim>\<open>undefined\<close> unless the index is
  an integer inside the array.
\<close>

fun js_index :: "'a list \<Rightarrow> jsnum \<Rightarrow> 'a jsref" where
  "js_index xs (Fin r) =
     (if r = of_int \<lfloor>r\<rfloor> \<and> 0 \<le> r \<and> \<lfloor>r\<rfloor> < int (length xs) then Obj (xs ! nat \<lfloor>r\<rfloor>)
      else Undefined)"
| "js_index xs _ = Undefined"

definition js_length :: "'a list \<Rightarrow> jsnum" where
  "js_length xs = Fin (of_nat (length xs))"

definition connect :: "jsnum \<Rightarrow> MidiManager \<Rightarrow> MidiManager \<times> bool" where
  "connect deviceIndex m =
     (if \<not> truthy (midiAccess m) then (m, False)
      else if js_ge deviceIndex (Fin 0) \<and> js_lt deviceIndex (js_length (devices m))
      then (m\<lparr>midiOutput := js_index (devices m) deviceIndex\<rparr>, True)
      else (m, False))"

definition disconnect :: "MidiManager \<Rightarrow> MidiManager" where
  "disconnect m = m\<lparr>midiOutput := Null\<rparr>"

definition isConnected :: "MidiManager \<Rightarrow> bool" where
  "isConnected m = (midiOutput m \<noteq> Null)"

definition getConnectedDeviceName :: "MidiManager \<Rightarrow> string option" where
  "getConnectedDeviceName m = (case midiOutput m of Obj p \<Rightarrow> Some (name p) | _ \<Rightarrow> None)"

section \<open>The channel endpoint\<close>

record BaseSynth =
  midiOutput :: "MIDIOutput jsref"
  channel :: jsnum

text \<open>
  \<^verbatim>\<open>constructor(midiOutput, channel = 1)\<close>: an omitted channel takes the default. The
  subclasses only change the default.
\<close>

definition default_arg :: "'a \<Rightarrow> 'a option \<Rightarrow> 'a" where
  "default_arg d a = (case a of None \<Rightarrow> d | Some v \<Rightarrow> v)"

definition BaseSynth_init :: "MIDIOutput jsref \<Rightarrow> jsnum \<Rightarrow> BaseSynth" where
  "BaseSynth_init out ch =
     \<lparr>midiOutput = out,
      channel = js_sub (Math_max (Fin 1) (Math_min (Fin 16) ch)) (Fin 1)\<rparr>"

definition new_BaseSynth :: "MIDIOutput jsref \<Rightarrow> jsnum option \<Rightarrow> BaseSynth" where
  "new_BaseSynth out ch = BaseSynth_init out (default_arg (Fin 1) ch)"

definition new_SH4d :: "MIDIOutput jsref \<Rightarrow> jsnum option \<Rightarrow> BaseSynth" where
  "new_SH4d out ch = BaseSynth_init out (default_arg (Fin 1) ch)"

definition new_TR8S :: "MIDIOutput jsref \<Rightarrow> jsnum option \<Rightarrow> BaseSynth" where
  "new_TR8S out ch = BaseSynth_init out (default_arg (Fin 10) ch)"

text \<open>
  The endpoint together with what its methods act on: the messages handed to
  \<^verbatim>\<open>send\<close> so far, each with the port that received it, and the pending
  \<^verbatim>\<open>setTimeout\<close> tasks of \<^verbatim>\<open>playNote\<close>, each with its delay and the note its closure
  captured. The closure reads \<^verbatim>\<open>this.midiOutput\<close> when it runs, so it sees the endpoint
  of the state in which it fires.
\<close>

record env =
  this :: BaseSynth
  sent :: "(MIDIOutput \<times> jsnum list) list"
  timers :: "(jsnum \<times> jsnum) list"

text \<open>
  \<^verbatim>\<open>this.midiOutput.send(data)\<close>: a method call on \<^verbatim>\<open>null\<close> or \<^verbatim>\<open>undefined\<close> throws a
  TypeError; a port records the message.
\<close>

fun send :: "MIDIOutput jsref \<Rightarrow> jsnum list \<Rightarrow> env \<Rightarrow> error + env" where
  "send (Obj p) data s = Inr (s\<lparr>sent := sent s @ [(p, data)]\<rparr>)"
| "send _ data s = Inl TypeError"

definition noteOn :: "jsnum \<Rightarrow> jsnum \<Rightarrow> env \<Rightarrow> error + env" where
  "noteOn note velocity s =
     (if \<not> truthy (midiOutput (this s)) then Inr s
      else
        let clampedNote = Math_max (Fin 0) (Math_min (Fin 127) (Math_floor note));
            clampedVelocity = Math_max (Fin 0) (Math_min (Fin 127) (Math_floor velocity))
        in send (midiOutput (this s))
             [js_add (Fin 0x90) (channel (this s)), clampedNote, clampedVelocity] s)"

definition noteOff :: "jsnum \<Rightarrow> jsnum \<Rightarrow> env \<Rightarrow> error + env" where
  "noteOff note velocity s =
     (if \<not> truthy (midiOutput (this s)) then Inr s
      else
        let clampedNote = Math_max (Fin 0) (Math_min (Fin 127) (Math_floor note));
            clampedVelocity = Math_max (Fin 0) (Math_min (Fin 127) (Math_floor velocity))
        in send (midiOutput (this s))
             [js_add (Fin 0x80) (channel (this s)), clampedNote, clampedVelocity] s)"

text \<open>The task scheduled by \<^verbatim>\<open>playNote\<close>, run when its timer fires.\<close>

definition deferred_noteOff :: "jsnum \<Rightarrow> env \<Rightarrow> error + env" where
  "deferred_noteOff note s =
     (if truthy (midiOutput (this s)) then noteOff note (Fin 0) s else Inr s)"

definition playNote :: "jsnum \<Rightarrow> jsnum \<Rightarrow> jsnum \<Rightarrow> env \<Rightarrow> error + env" where
  "playNote note velocity duration s =
     (if \<not> truthy (midiOutput (this s)) then Inr s
      else
        case noteOn note velocity s of
          Inl e \<Rightarrow> Inl e
        | Inr s' \<Rightarrow> Inr (s'\<lparr>timers := timers s' @ [(duration, note)]\<rparr>))"

definition sendCC :: "jsnum \<Rightarrow> jsnum \<Rightarrow> env \<Rightarrow> error + env" where
  "sendCC controller val s =
     (if \<not> truthy (midiOutput (this s)) then Inr s
      else
        let clampedController = Math_max (Fin 0) (Math_min (Fin 127) (Math_floor controller));
            clampedValue = Math_max (Fin 0) (Math_min (Fin 127) (Math_floor val))
        in send (midiOutput (this s))
             [js_add (Fin 0xB0) (channel (this s)), clampedController, clampedValue] s)"

definition sendProgramChange :: "jsnum \<Rightarrow> env \<Rightarrow> error + env" where
  "sendProgramChange program s =
     (if \<not> truthy (midiOutput (this s)) then Inr s
      else
        let clampedProgram = Math_max (Fin 0) (Math_min (Fin 127) (Math_floor program))
        in send (midiOutput (this s))
             [js_add (Fin 0xC0) (channel (this s)), clampedProgram] s)"

definition pitchBend14 :: "jsnum \<Rightarrow> jsnum" where
  "pitchBend14 val =
     (let center = Fin 8192
      in js_add (Math_max (Fin (- 8192)) (Math_min (Fin 8191) (Math_floor val))) center)"

definition sendPitchBend :: "jsnum \<Rightarrow> env \<Rightarrow> error + env" where
  "sendPitchBend val s =
     (if \<not> truthy (midiOutput (this s)) then Inr s
      else
        let clampedValue = pitchBend14 val;
            lsb = js_and clampedValue (Fin 0x7F);
            msb = js_and (js_shr clampedValue (Fin 7)) (Fin 0x7F)
        in send (midiOutput (this s))
             [js_add (Fin 0xE0) (channel (this s)), lsb, msb] s)"

definition sendRawMIDI :: "jsnum list \<Rightarrow> env \<Rightarrow> error + env" where
  "sendRawMIDI data s =
     (if \<not> truthy (midiOutput (this s)) then Inr s
      else send (midiOutput (this s)) data s)"

section \<open>Sessions\<close>

text \<open>
  What can happen to an endpoint: the caller invokes one of its methods or assigns its
  \<^verbatim>\<open>midiOutput\<close> field, or the event loop runs the pending task number \<open>i\<close>. A fired
  task leaves the list of pending tasks before its callback runs.
\<close>

datatype event =
    NoteOn jsnum jsnum
  | NoteOff jsnum jsnum
  | PlayNote jsnum jsnum jsnum
  | SendCC jsnum jsnum
  | SendProgramChange jsnum
  | SendPitchBend jsnum
  | SendRawMIDI "jsnum list"
  | TimerFires nat
  | SetPort "MIDIOutput jsref"

definition fire :: "nat \<Rightarrow> env \<Rightarrow> error + env" where
  "fire i s =
     (if i < length (timers s)
      then deferred_noteOff (snd (timers s ! i))
             (s\<lparr>timers := take i (timers s) @ drop (Suc i) (timers s)\<rparr>)
      else Inr s)"

fun exec :: "event \<Rightarrow> env \<Rightarrow> error + env" where
  "exec (NoteOn n v) s = noteOn n v s"
| "exec (NoteOff n v) s = noteOff n v s"
| "exec (PlayNote n v d) s = playNote n v d s"
| "exec (SendCC c v) s = sendCC c v s"
| "exec (SendProgramChange p) s = sendProgramChange p s"
| "exec (SendPitchBend v) s = sendPitchBend v s"
| "exec (SendRawMIDI d) s = sendRawMIDI d s"
| "exec (TimerFires i) s = fire i s"
| "exec (SetPort r) s = Inr (s\<lparr>this := (this s)\<lparr>midiOutput := r\<rparr>\<rparr>)"

fun run :: "event list \<Rightarrow> env \<Rightarrow> error + env" where
  "run [] s = Inr s"
| "run (e # es) s = (case exec e s of Inl err \<Rightarrow> Inl err | Inr s' \<Rightarrow> run es s')"

definition new_env :: "BaseSynth \<Rightarrow> env" where
  "new_env b = \<lparr>this = b, sent = [], timers = []\<rparr>"

text \<open>The same for the manager; no method of the manager throws.\<close>

datatype mgr_event =
    Initialize navigator
  | Connect jsnum
  | Disconnect
  | StateChange "MIDIOutput list"
  | SetOnStateChange bool

fun mgr_exec :: "mgr_event \<Rightarrow> MidiManager \<Rightarrow> MidiManager" where
  "mgr_exec (Initialize nav) m = fst (initialize nav m)"
| "mgr_exec (Connect i) m = fst (connect i m)"
| "mgr_exec Disconnect m = disconnect m"
| "mgr_exec (StateChange outs) m = statechange outs m"
| "mgr_exec (SetOnStateChange b) m = m\<lparr>onStateChange := b\<rparr>"

fun mgr_run :: "mgr_event list \<Rightarrow> MidiManager \<Rightarrow> MidiManager" where
  "mgr_run [] m = m"
| "mgr_run (e # es) m = mgr_run es (mgr_exec e m)"

fun init_success :: "mgr_event \<Rightarrow> bool" where
  "init_success (Initialize (Granted a)) = True"
| "init_success _ = False"

section \<open>The vocabulary of the specification\<close>

text \<open>An integer in \<open>[0,127]\<close>: a well-formed MIDI data byte.\<close>

fun is_byte7 :: "jsnum \<Rightarrow> bool" where
  "is_byte7 (Fin r) = (r = of_int \<lfloor>r\<rfloor> \<and> 0 \<le> r \<and> r \<le> 127)"
| "is_byte7 _ = False"

text \<open>
  Flooring the input and clamping it to \<open>[0,127]\<close>, as the specification words it; the
  infinities clamp to the nearest bound, and NaN, which has no floor, stays NaN.
\<close>

fun floor_clamp7 :: "jsnum \<Rightarrow> jsnum" where
  "floor_clamp7 (Fin r) = Fin (of_int (max 0 (min 127 \<lfloor>r\<rfloor>)))"
| "floor_clamp7 PInf = Fin 127"
| "floor_clamp7 NInf = Fin 0"
| "floor_clamp7 NaN = NaN"

text \<open>The data bytes of a message are the bytes after its status byte.\<close>

definition data_bytes_ok :: "jsnum list \<Rightarrow> bool" where
  "data_bytes_ok msg = list_all is_byte7 (tl msg)"

text \<open>
  A call whose arguments the encoding covers: no NaN among the numbers that are floored and
  clamped; any pitch-bend value; raw data that the caller has made well-formed. Timer
  firings and assignments of the port carry no numbers of their own.
\<close>

fun encodes :: "event \<Rightarrow> bool" where
  "encodes (NoteOn n v) = (n \<noteq> NaN \<and> v \<noteq> NaN)"
| "encodes (NoteOff n v) = (n \<noteq> NaN \<and> v \<noteq> NaN)"
| "encodes (PlayNote n v d) = (n \<noteq> NaN \<and> v \<noteq> NaN)"
| "encodes (SendCC c v) = (c \<noteq> NaN \<and> v \<noteq> NaN)"
| "encodes (SendProgramChange p) = (p \<noteq> NaN)"
| "encodes (SendPitchBend v) = True"
| "encodes (SendRawMIDI d) = data_bytes_ok d"
| "encodes (TimerFires i) = True"
| "encodes (SetPort r) = True"

text \<open>
  The invariant: every message handed to a port so far has well-formed data bytes, and no
  pending task has captured a NaN note.
\<close>

definition wf_state :: "env \<Rightarrow> bool" where
  "wf_state s =
     (list_all (\<lambda>pm. data_bytes_ok (snd pm)) (sent s)
      \<and> list_all (\<lambda>t. snd t \<noteq> NaN) (timers s))"

text \<open>An index inside \<open>[0, n)\<close>.\<close>

fun in_range :: "jsnum \<Rightarrow> nat \<Rightarrow> bool" where
  "in_range (Fin r) n = (0 \<le> r \<and> r < of_nat n)"
| "in_range _ n = False"

text \<open>The channel the constructor is specified to store: \<open>max(1, min(16, c)) - 1\<close>.\<close>

definition spec_channel :: "rat \<Rightarrow> rat" where
  "spec_channel c = max 1 (min 16 c) - 1"

text \<open>The empty manager state: no access handle, no devices, no connected port.\<close>

definition empty_state :: "MidiManager \<Rightarrow> bool" where
  "empty_state m =
     (midiAccess m = Null \<and> devices m = [] \<and> MidiManager.midiOutput m = Null)"

text \<open>
  The 14-bit pitch-bend value of an integer input: clamped to \<open>[-8192, 8191]\<close> and biased
  by 8192.
\<close>

definition spec_bend14 :: "int \<Rightarrow> int" where
  "spec_bend14 v = max (- 8192) (min 8191 v) + 8192"

section \<open>Concrete inputs\<close>

text \<open>Two ports for the concrete runs.\<close>

definition portA :: MIDIOutput where
  "portA = \<lparr>port_id = ''output-1'', name = ''SH-4d''\<rparr>"

definition portB :: MIDIOutput where
  "portB = \<lparr>port_id = ''output-2'', name = ''TR-8S''\<rparr>"

text \<open>An access object with both ports, as the platform hands it out.\<close>

definition access2 :: MIDIAccess where
  "access2 = \<lparr>outputs = [portA, portB], onstatechange = False\<rparr>"

section \<open>Clamping\<close>

lemma Math_max_int: "Math_max (Fin (of_int a)) (Fin (of_int b)) = Fin (of_int (max a b))"
  by (simp add: Math_max_def max_def)

lemma Math_min_int: "Math_min (Fin (of_int a)) (Fin (of_int b)) = Fin (of_int (min a b))"
  by (simp add: Math_min_def min_def)

lemma clamp_Fin:
  "Math_max (Fin (of_int lo)) (Math_min (Fin (of_int hi)) (Math_floor (Fin r)))
     = Fin (of_int (max lo (min hi \<lfloor>r\<rfloor>)))"
  by (simp only: Math_floor.simps Math_min_int Math_max_int)

lemma clamp_floor_clamp7:
  "Math_max (Fin 0) (Math_min (Fin 127) (Math_floor x)) = floor_clamp7 x"
proof (cases x)
  case (Fin r)
  have "Math_max (Fin (of_int 0)) (Math_min (Fin (of_int 127)) (Math_floor (Fin r)))
          = Fin (of_int (max 0 (min 127 \<lfloor>r\<rfloor>)))"
    by (rule clamp_Fin)
  then show ?thesis using Fin by simp
qed (simp_all add: Math_max_def Math_min_def)

lemma is_byte7_of_int: "is_byte7 (Fin (of_int k)) = (0 \<le> k \<and> k \<le> 127)"
  by auto

lemma is_byte7_floor_clamp7: "is_byte7 (floor_clamp7 x) = (x \<noteq> NaN)"
  by (cases x) (simp_all only: floor_clamp7.simps is_byte7_of_int, auto)

section \<open>What each method sends on a bound port\<close>

lemma noteOn_bound:
  "midiOutput (this s) = Obj p \<Longrightarrow>
   noteOn note velocity s =
     Inr (s\<lparr>sent := sent s @
            [(p, [js_add (Fin 0x90) (channel (this s)), floor_clamp7 note, floor_clamp7 velocity])]\<rparr>)"
  by (simp add: noteOn_def clamp_floor_clamp7)

lemma noteOff_bound:
  "midiOutput (this s) = Obj p \<Longrightarrow>
   noteOff note velocity s =
     Inr (s\<lparr>sent := sent s @
            [(p, [js_add (Fin 0x80) (channel (this s)), floor_clamp7 note, floor_clamp7 velocity])]\<rparr>)"
  by (simp add: noteOff_def clamp_floor_clamp7)

lemma sendCC_bound:
  "midiOutput (this s) = Obj p \<Longrightarrow>
   sendCC controller val s =
     Inr (s\<lparr>sent := sent s @
            [(p, [js_add (Fin 0xB0) (channel (this s)), floor_clamp7 controller, floor_clamp7 val])]\<rparr>)"
  by (simp add: sendCC_def clamp_floor_clamp7)

lemma sendProgramChange_bound:
  "midiOutput (this s) = Obj p \<Longrightarrow>
   sendProgramChange program s =
     Inr (s\<lparr>sent := sent s @
            [(p, [js_add (Fin 0xC0) (channel (this s)), floor_clamp7 program])]\<rparr>)"
  by (simp add: sendProgramChange_def clamp_floor_clamp7)

lemmas concrete_endpoint =
  new_env_def new_BaseSynth_def new_TR8S_def BaseSynth_init_def default_arg_def
  Math_max_def Math_min_def js_sub_def

section \<open>Encoded data bytes\<close>

text \<open>
  C1 (as amended). On an endpoint whose port is bound, \<^verbatim>\<open>noteOn\<close>, \<^verbatim>\<open>noteOff\<close>,
  \<^verbatim>\<open>sendCC\<close> and \<^verbatim>\<open>sendProgramChange\<close> hand the port exactly one message, whose data
  bytes are the floor of each argument clamped to \<open>[0,127]\<close>. Such a byte is an integer in
  \<open>[0,127]\<close> for every argument that is not NaN: negative, fractional, above 127 or
  infinite. For NaN the byte is NaN.
\<close>

theorem encoded_data_bytes:
  assumes "midiOutput (this s) = Obj p"
  shows "noteOn note velocity s =
           Inr (s\<lparr>sent := sent s @
             [(p, [js_add (Fin 0x90) (channel (this s)),
                   floor_clamp7 note, floor_clamp7 velocity])]\<rparr>)
       \<and> noteOff note velocity s =
           Inr (s\<lparr>sent := sent s @
             [(p, [js_add (Fin 0x80) (channel (this s)),
                   floor_clamp7 note, floor_clamp7 velocity])]\<rparr>)
       \<and> sendCC controller val s =
           Inr (s\<lparr>sent := sent s @
             [(p, [js_add (Fin 0xB0) (channel (this s)),
                   floor_clamp7 controller, floor_clamp7 val])]\<rparr>)
       \<and> sendProgramChange program s =
           Inr (s\<lparr>sent := sent s @
             [(p, [js_add (Fin 0xC0) (channel (this s)), floor_clamp7 program])]\<rparr>)
       \<and> (\<forall>x. is_byte7 (floor_clamp7 x) = (x \<noteq> NaN))"
  using assms
  by (simp add: noteOn_bound noteOff_bound sendCC_bound sendProgramChange_bound
        is_byte7_floor_clamp7)

theorem encoded_data_bytes_witness:
  "midiOutput (this (new_env (new_BaseSynth (Obj portA) (Some (Fin 1))))) = Obj portA
   \<and> noteOn (Fin (- 7 / 2)) (Fin 300) (new_env (new_BaseSynth (Obj portA) (Some (Fin 1))))
       = Inr \<lparr>this = new_BaseSynth (Obj portA) (Some (Fin 1)),
              sent = [(portA, [Fin 144, Fin 0, Fin 127])], timers = []\<rparr>
   \<and> sendCC (Fin (149 / 2)) PInf (new_env (new_BaseSynth (Obj portA) (Some (Fin 1))))
       = Inr \<lparr>this = new_BaseSynth (Obj portA) (Some (Fin 1)),
              sent = [(portA, [Fin 176, Fin 74, Fin 127])], timers = []\<rparr>
   \<and> sendProgramChange (Fin 200) (new_env (new_BaseSynth (Obj portA) (Some (Fin 1))))
       = Inr \<lparr>this = new_BaseSynth (Obj portA) (Some (Fin 1)),
              sent = [(portA, [Fin 192, Fin 127])], timers = []\<rparr>"
  using encoded_data_bytes [of "new_env (new_BaseSynth (Obj portA) (Some (Fin 1)))" portA
      "Fin (- 7 / 2)" "Fin 300" "Fin (149 / 2)" PInf "Fin 200"]
  by (simp add: concrete_endpoint floor_eq_iff)

text \<open>
  C1 as stated fails at NaN: \<^verbatim>\<open>noteOn(NaN, 100)\<close> on a channel-1 endpoint hands the port
  NaN as its first data byte, since \<^verbatim>\<open>Math.floor\<close>, \<^verbatim>\<open>Math.min\<close> and \<^verbatim>\<open>Math.max\<close> all
  return NaN on NaN.
\<close>

theorem nan_note_counterexample:
  "noteOn NaN (Fin 100) (new_env (new_BaseSynth (Obj portA) (Some (Fin 1))))
     = Inr \<lparr>this = new_BaseSynth (Obj portA) (Some (Fin 1)),
            sent = [(portA, [Fin 144, NaN, Fin 100])], timers = []\<rparr>
   \<and> \<not> is_byte7 NaN"
  by (simp add: noteOn_def concrete_endpoint)

section \<open>Pitch bend\<close>

lemma pitchBend14_Fin:
  "pitchBend14 (Fin r) = Fin (of_int (spec_bend14 \<lfloor>r\<rfloor>))"
proof -
  have "Math_max (Fin (of_int (- 8192))) (Math_min (Fin (of_int 8191)) (Math_floor (Fin r)))
          = Fin (of_int (max (- 8192) (min 8191 \<lfloor>r\<rfloor>)))"
    by (rule clamp_Fin)
  then show ?thesis
    by (simp add: pitchBend14_def spec_bend14_def)
qed

lemma spec_bend14_range: "0 \<le> spec_bend14 v \<and> spec_bend14 v \<le> 16383"
  by (simp add: spec_bend14_def)

lemma ToInt32_small: "0 \<le> k \<Longrightarrow> k < 2 ^ 31 \<Longrightarrow> ToInt32 (Fin (of_int k)) = k"
  by (simp add: trunc_def Let_def)

lemma lsb_eq:
  assumes "0 \<le> k" "k \<le> 16383"
  shows "js_and (Fin (of_int k)) (Fin 0x7F) = Fin (of_int (k mod 128))"
proof -
  have a: "ToInt32 (Fin (of_int k)) = k" using assms by (intro ToInt32_small) simp_all
  have b: "ToInt32 (Fin 0x7F) = 127" using ToInt32_small [of 127] by simp
  have "k AND 127 = k mod 128"
    using take_bit_eq_mask [of 7 k] by (simp add: mask_eq_exp_minus_1 take_bit_eq_mod)
  then show ?thesis by (simp only: js_and_def a b)
qed

lemma msb_eq:
  assumes "0 \<le> k" "k \<le> 16383"
  shows "js_and (js_shr (Fin (of_int k)) (Fin 7)) (Fin 0x7F) = Fin (of_int (k div 128))"
proof -
  have a: "ToInt32 (Fin (of_int k)) = k" using assms by (intro ToInt32_small) simp_all
  have b: "ToInt32 (Fin 0x7F) = 127" using ToInt32_small [of 127] by simp
  have c: "ToInt32 (Fin 7) = 7" using ToInt32_small [of 7] by simp
  have d: "js_shr (Fin (of_int k)) (Fin 7) = Fin (of_int (k div 128))"
    by (simp only: js_shr_def a c) (simp add: drop_bit_eq_div)
  have e: "0 \<le> k div 128" "k div 128 < 128" using assms by auto
  have f: "ToInt32 (Fin (of_int (k div 128))) = k div 128"
    using e by (intro ToInt32_small) simp_all
  have "(k div 128) AND 127 = (k div 128) mod 128"
    using take_bit_eq_mask [of 7 "k div 128"]
    by (simp add: mask_eq_exp_minus_1 take_bit_eq_mod)
  also have "\<dots> = k div 128" using e by simp
  finally show ?thesis by (simp only: js_and_def d f b)
qed

lemma sendPitchBend_int:
  assumes "midiOutput (this s) = Obj p"
  shows "sendPitchBend (Fin (of_int v)) s =
           Inr (s\<lparr>sent := sent s @
             [(p, [js_add (Fin 0xE0) (channel (this s)),
                   Fin (of_int (spec_bend14 v mod 128)),
                   Fin (of_int (spec_bend14 v div 128))])]\<rparr>)"
proof -
  have "pitchBend14 (Fin (of_int v)) = Fin (of_int (spec_bend14 v))"
    by (simp add: pitchBend14_Fin)
  then show ?thesis
    using assms spec_bend14_range [of v]
    by (simp add: sendPitchBend_def lsb_eq msb_eq)
qed

text \<open>
  C2. For an integer \<open>v\<close>, \<^verbatim>\<open>sendPitchBend(v)\<close> on a bound endpoint sends the two data
  bytes \<open>lsb = b mod 128\<close> and \<open>msb = b div 128\<close> of the 14-bit value \<open>b\<close>, so that
  \<open>msb * 128 + lsb = b\<close> with both bytes in \<open>[0,127]\<close>; \<open>b\<close> is \<open>v + 8192\<close> for \<open>v\<close> in
  \<open>[-8192, 8191]\<close>, 0 below that range and 16383 above it, and it is the value of
  \<^verbatim>\<open>clampedValue\<close> before the split.
\<close>

theorem pitch_bend_split:
  assumes "midiOutput (this s) = Obj p"
  shows "sendPitchBend (Fin (of_int v)) s =
           Inr (s\<lparr>sent := sent s @
             [(p, [js_add (Fin 0xE0) (channel (this s)),
                   Fin (of_int (spec_bend14 v mod 128)),
                   Fin (of_int (spec_bend14 v div 128))])]\<rparr>)
       \<and> (spec_bend14 v div 128) * 128 + spec_bend14 v mod 128 = spec_bend14 v
       \<and> 0 \<le> spec_bend14 v mod 128 \<and> spec_bend14 v mod 128 \<le> 127
       \<and> 0 \<le> spec_bend14 v div 128 \<and> spec_bend14 v div 128 \<le> 127
       \<and> pitchBend14 (Fin (of_int v)) = Fin (of_int (spec_bend14 v))
       \<and> (- 8192 \<le> v \<and> v \<le> 8191 \<longrightarrow> spec_bend14 v = v + 8192)
       \<and> (v < - 8192 \<longrightarrow> spec_bend14 v = 0)
       \<and> (8191 < v \<longrightarrow> spec_bend14 v = 16383)"
proof -
  have r: "0 \<le> spec_bend14 v" "spec_bend14 v \<le> 16383"
    using spec_bend14_range [of v] by simp_all
  have 1: "0 \<le> spec_bend14 v div 128 \<and> spec_bend14 v div 128 \<le> 127"
    using r by auto
  have 2: "0 \<le> spec_bend14 v mod 128 \<and> spec_bend14 v mod 128 \<le> 127"
    by simp
  have 3: "(- 8192 \<le> v \<and> v \<le> 8191 \<longrightarrow> spec_bend14 v = v + 8192)
       \<and> (v < - 8192 \<longrightarrow> spec_bend14 v = 0)
       \<and> (8191 < v \<longrightarrow> spec_bend14 v = 16383)"
    by (simp add: spec_bend14_def)
  have 4: "pitchBend14 (Fin (of_int v)) = Fin (of_int (spec_bend14 v))"
    by (simp add: pitchBend14_Fin)
  show ?thesis
    using sendPitchBend_int [OF assms, of v] 1 2 3 4 by simp
qed

theorem pitch_bend_split_witness:
  "midiOutput (this (new_env (new_BaseSynth (Obj portA) (Some (Fin 1))))) = Obj portA
   \<and> - 8192 \<le> (- 1 :: int) \<and> (- 1 :: int) \<le> 8191
   \<and> sendPitchBend (Fin (of_int (- 1))) (new_env (new_BaseSynth (Obj portA) (Some (Fin 1))))
       = Inr \<lparr>this = new_BaseSynth (Obj portA) (Some (Fin 1)),
              sent = [(portA, [Fin 0xE0, Fin 127, Fin 63])], timers = []\<rparr>
   \<and> spec_bend14 (- 1) = 8191
   \<and> 9000 > (8191 :: int)
   \<and> sendPitchBend (Fin (of_int 9000)) (new_env (new_BaseSynth (Obj portA) (Some (Fin 1))))
       = Inr \<lparr>this = new_BaseSynth (Obj portA) (Some (Fin 1)),
              sent = [(portA, [Fin 0xE0, Fin 127, Fin 127])], timers = []\<rparr>
   \<and> spec_bend14 9000 = 16383"
  using pitch_bend_split [of "new_env (new_BaseSynth (Obj portA) (Some (Fin 1)))" portA "- 1"]
    pitch_bend_split [of "new_env (new_BaseSynth (Obj portA) (Some (Fin 1)))" portA 9000]
  by (simp add: concrete_endpoint spec_bend14_def)

text \<open>
  C4. On an endpoint whose port reference is \<^verbatim>\<open>null\<close> (or \<^verbatim>\<open>undefined\<close>), each of the
  seven send operations returns normally and leaves the state as it was: nothing is handed
  to any port and no task is scheduled.
\<close>

theorem unbound_sends_nothing:
  assumes "\<not> truthy (midiOutput (this s))"
  shows "noteOn note velocity s = Inr s
       \<and> noteOff note velocity s = Inr s
       \<and> playNote note velocity duration s = Inr s
       \<and> sendCC controller val s = Inr s
       \<and> sendProgramChange program s = Inr s
       \<and> sendPitchBend bend s = Inr s
       \<and> sendRawMIDI data s = Inr s"
  using assms
  by (simp add: noteOn_def noteOff_def playNote_def sendCC_def sendProgramChange_def
        sendPitchBend_def sendRawMIDI_def)

theorem unbound_sends_nothing_witness:
  "\<not> truthy (midiOutput (this (new_env (new_BaseSynth Null (Some (Fin 1))))))
   \<and> noteOn (Fin 60) (Fin 100) (new_env (new_BaseSynth Null (Some (Fin 1))))
       = Inr \<lparr>this = new_BaseSynth Null (Some (Fin 1)), sent = [], timers = []\<rparr>
   \<and> playNote (Fin 60) (Fin 100) (Fin 50) (new_env (new_BaseSynth Null (Some (Fin 1))))
       = Inr \<lparr>this = new_BaseSynth Null (Some (Fin 1)), sent = [], timers = []\<rparr>
   \<and> sendRawMIDI [Fin 0xF8] (new_env (new_BaseSynth Null (Some (Fin 1))))
       = Inr \<lparr>this = new_BaseSynth Null (Some (Fin 1)), sent = [], timers = []\<rparr>"
  using unbound_sends_nothing [of "new_env (new_BaseSynth Null (Some (Fin 1)))"
      "Fin 60" "Fin 100" "Fin 50" "Fin 0" "Fin 0" "Fin 0" "Fin 0" "[Fin 0xF8]"]
  by (simp add: concrete_endpoint)

lemma channel_Fin:
  "channel (BaseSynth_init out (Fin c)) = Fin (spec_channel c)"
  by (simp add: BaseSynth_init_def Math_max_def Math_min_def js_sub_def spec_channel_def
        max_def min_def)

text \<open>
  C6 (as amended). For every finite channel argument \<open>c\<close> the stored channel is
  \<open>max(1, min(16, c)) - 1\<close> and lies in \<open>[0,15]\<close>; the infinities saturate to 15 and 0, an
  omitted argument stores 0, and the raw values 0, 1, 16, 17, -5 store 0, 0, 15, 15, 0.
  Only NaN is not clamped: it is stored as NaN.
\<close>

theorem stored_channel:
  "channel (new_BaseSynth out (Some (Fin c))) = Fin (spec_channel c)
   \<and> 0 \<le> spec_channel c \<and> spec_channel c \<le> 15
   \<and> channel (new_BaseSynth out (Some PInf)) = Fin 15
   \<and> channel (new_BaseSynth out (Some NInf)) = Fin 0
   \<and> channel (new_BaseSynth out (Some NaN)) = NaN
   \<and> channel (new_BaseSynth out None) = Fin 0
   \<and> channel (new_BaseSynth out (Some (Fin 0))) = Fin 0
   \<and> channel (new_BaseSynth out (Some (Fin 1))) = Fin 0
   \<and> channel (new_BaseSynth out (Some (Fin 16))) = Fin 15
   \<and> channel (new_BaseSynth out (Some (Fin 17))) = Fin 15
   \<and> channel (new_BaseSynth out (Some (Fin (- 5)))) = Fin 0"
  by (simp add: new_BaseSynth_def default_arg_def channel_Fin)
     (simp add: BaseSynth_init_def Math_max_def Math_min_def js_sub_def spec_channel_def)

text \<open>
  C6 as stated fails at NaN: the constructor stores NaN, which is neither at least 0 nor at
  most 15.
\<close>

theorem nan_channel_counterexample:
  "channel (new_BaseSynth (Obj portA) (Some NaN)) = NaN
   \<and> \<not> (js_ge NaN (Fin 0) \<and> js_ge (Fin 15) NaN)"
  by (simp add: concrete_endpoint js_ge_def)

text \<open>
  C7. \<^verbatim>\<open>noteOn(60, 100)\<close> sends exactly \<open>[0x90, 60, 100]\<close> on an endpoint constructed with
  channel 1 and exactly \<open>[0x99, 60, 100]\<close> on one constructed with channel 10; the stored
  channels are 0 and 9, and they are also the defaults of \<^verbatim>\<open>BaseSynth\<close> and \<^verbatim>\<open>TR8S\<close>.
\<close>

theorem noteOn_60_100_bytes:
  "noteOn (Fin 60) (Fin 100) (new_env (new_BaseSynth (Obj p) (Some (Fin 1))))
     = Inr \<lparr>this = new_BaseSynth (Obj p) (Some (Fin 1)),
            sent = [(p, [Fin 0x90, Fin 60, Fin 100])], timers = []\<rparr>
   \<and> noteOn (Fin 60) (Fin 100) (new_env (new_BaseSynth (Obj p) (Some (Fin 10))))
     = Inr \<lparr>this = new_BaseSynth (Obj p) (Some (Fin 10)),
            sent = [(p, [Fin 0x99, Fin 60, Fin 100])], timers = []\<rparr>
   \<and> channel (new_BaseSynth (Obj p) (Some (Fin 1))) = Fin 0
   \<and> channel (new_BaseSynth (Obj p) (Some (Fin 10))) = Fin 9
   \<and> new_BaseSynth (Obj p) None = new_BaseSynth (Obj p) (Some (Fin 1))
   \<and> new_TR8S (Obj p) None = new_BaseSynth (Obj p) (Some (Fin 10))"
  by (simp add: noteOn_def concrete_endpoint)

section \<open>The manager\<close>

lemma initialize_fails:
  "nav = Unsupported \<or> nav = Denied \<Longrightarrow> initialize nav m = (m, False, None)"
  by (auto simp: initialize_def)

lemma initialize_succeeds:
  "initialize (Granted a) m =
     (m\<lparr>midiAccess := Obj (a\<lparr>onstatechange := True\<rparr>), devices := outputs a\<rparr>, True, None)"
  by (simp add: initialize_def updateDeviceList_def)

lemma initialize_no_throw: "snd (snd (initialize nav m)) = None"
  by (cases nav) (simp_all add: initialize_def)

lemma connect_no_access: "\<not> truthy (midiAccess m) \<Longrightarrow> connect i m = (m, False)"
  by (simp add: connect_def)

lemma in_range_iff:
  "in_range i (length xs) = (js_ge i (Fin 0) \<and> js_lt i (js_length xs))"
  by (cases i) (auto simp: js_ge_def js_length_def)

lemma connect_out_of_range:
  "\<not> in_range i (length (devices m)) \<Longrightarrow> connect i m = (m, False)"
  by (auto simp: connect_def in_range_iff)

lemma connect_in_range:
  "truthy (midiAccess m) \<Longrightarrow> in_range i (length (devices m)) \<Longrightarrow>
   connect i m = (m\<lparr>MidiManager.midiOutput := js_index (devices m) i\<rparr>, True)"
  by (simp add: connect_def in_range_iff)

lemma in_range_int:
  "in_range (Fin (of_int k)) n = (0 \<le> k \<and> k < int n)"
proof -
  have "(of_int k < (of_nat n :: rat)) = (k < int n)"
    by (metis of_int_less_iff of_int_of_nat_eq)
  then show ?thesis by simp
qed

lemma empty_state_exec:
  "empty_state m \<Longrightarrow> \<not> init_success e \<Longrightarrow> empty_state (mgr_exec e m)"
proof (cases e)
  case (Initialize nav)
  assume "empty_state m" "\<not> init_success e"
  then show ?thesis using Initialize by (cases nav) (simp_all add: initialize_def)
next
  case (Connect i)
  assume "empty_state m" "\<not> init_success e"
  then show ?thesis using Connect by (simp add: empty_state_def connect_def)
next
  case Disconnect
  assume "empty_state m" "\<not> init_success e"
  then show ?thesis using Disconnect by (simp add: empty_state_def disconnect_def)
next
  case (StateChange outs)
  assume "empty_state m" "\<not> init_success e"
  then show ?thesis using StateChange by (simp add: empty_state_def statechange_def)
next
  case (SetOnStateChange b)
  assume "empty_state m" "\<not> init_success e"
  then show ?thesis using SetOnStateChange by (simp add: empty_state_def)
qed

lemma empty_state_run:
  "empty_state m \<Longrightarrow> \<not> list_ex init_success evs \<Longrightarrow> empty_state (mgr_run evs m)"
  by (induction evs arbitrary: m) (simp_all add: empty_state_exec)

lemma empty_new: "empty_state new_MidiManager"
  by (simp add: empty_state_def new_MidiManager_def)

lemma access_exec: "truthy (midiAccess m) \<Longrightarrow> truthy (midiAccess (mgr_exec e m))"
proof (cases e)
  case (Initialize nav)
  assume "truthy (midiAccess m)"
  then show ?thesis using Initialize
    by (cases nav) (simp_all add: initialize_def updateDeviceList_def)
next
  case (Connect i)
  assume "truthy (midiAccess m)"
  then show ?thesis using Connect by (simp add: connect_def)
next
  case Disconnect
  assume "truthy (midiAccess m)"
  then show ?thesis using Disconnect by (simp add: disconnect_def)
next
  case (StateChange outs)
  assume "truthy (midiAccess m)"
  then show ?thesis using StateChange
    by (cases "midiAccess m") (simp_all add: statechange_def updateDeviceList_def Let_def)
next
  case (SetOnStateChange b)
  assume "truthy (midiAccess m)"
  then show ?thesis using SetOnStateChange by simp
qed

lemma access_run_keep: "truthy (midiAccess m) \<Longrightarrow> truthy (midiAccess (mgr_run evs m))"
  by (induction evs arbitrary: m) (simp_all add: access_exec)

lemma access_after_success:
  "init_success e \<Longrightarrow> truthy (midiAccess (mgr_exec e m))"
  by (cases e rule: init_success.cases) (simp_all add: initialize_def updateDeviceList_def)

lemma access_run: "list_ex init_success evs \<Longrightarrow> truthy (midiAccess (mgr_run evs m))"
proof (induction evs arbitrary: m)
  case Nil
  then show ?case by simp
next
  case (Cons e evs)
  show ?case
  proof (cases "init_success e")
    case True
    then show ?thesis by (simp add: access_after_success access_run_keep)
  next
    case False
    then show ?thesis using Cons by simp
  qed
qed

text \<open>
  C5. \<^verbatim>\<open>connect(i)\<close> returns false and changes nothing when no \<^verbatim>\<open>initialize\<close> of the
  manager's history succeeded, and when \<open>i\<close> is outside \<open>[0, len(devices))\<close> (which includes
  NaN and the infinities). After a successful \<^verbatim>\<open>initialize\<close> and for \<open>i\<close> in range it
  returns true and binds the connected port to \<^verbatim>\<open>devices[i]\<close>, which for an integer index
  \<open>k\<close> is the \<open>k\<close>-th device.
\<close>

theorem connect_contract:
  "(\<not> list_ex init_success evs \<longrightarrow>
      connect i (mgr_run evs new_MidiManager) = (mgr_run evs new_MidiManager, False))
   \<and> (\<not> in_range i (length (devices m)) \<longrightarrow> connect i m = (m, False))
   \<and> (list_ex init_success evs \<and> in_range i (length (devices (mgr_run evs new_MidiManager)))
        \<longrightarrow> connect i (mgr_run evs new_MidiManager)
              = ((mgr_run evs new_MidiManager)
                   \<lparr>MidiManager.midiOutput := js_index (devices (mgr_run evs new_MidiManager)) i\<rparr>,
                 True))
   \<and> (0 \<le> k \<and> k < int (length (devices m)) \<longrightarrow>
        in_range (Fin (of_int k)) (length (devices m))
        \<and> js_index (devices m) (Fin (of_int k)) = Obj (devices m ! nat k))"
proof -
  have 1: "\<not> list_ex init_success evs \<longrightarrow>
      connect i (mgr_run evs new_MidiManager) = (mgr_run evs new_MidiManager, False)"
  proof
    assume "\<not> list_ex init_success evs"
    then have "empty_state (mgr_run evs new_MidiManager)"
      by (rule empty_state_run [OF empty_new])
    then show "connect i (mgr_run evs new_MidiManager) = (mgr_run evs new_MidiManager, False)"
      by (intro connect_no_access) (simp add: empty_state_def)
  qed
  have 2: "\<not> in_range i (length (devices m)) \<longrightarrow> connect i m = (m, False)"
    by (simp add: connect_out_of_range)
  have 3: "list_ex init_success evs \<and> in_range i (length (devices (mgr_run evs new_MidiManager)))
        \<longrightarrow> connect i (mgr_run evs new_MidiManager)
              = ((mgr_run evs new_MidiManager)
                   \<lparr>MidiManager.midiOutput := js_index (devices (mgr_run evs new_MidiManager)) i\<rparr>,
                 True)"
    using access_run [of evs new_MidiManager] by (simp add: connect_in_range)
  have 4: "0 \<le> k \<and> k < int (length (devices m)) \<longrightarrow>
        in_range (Fin (of_int k)) (length (devices m))
        \<and> js_index (devices m) (Fin (of_int k)) = Obj (devices m ! nat k)"
    by (simp add: in_range_int del: in_range.simps)
  show ?thesis using 1 2 3 4 by blast
qed


theorem connect_contract_witness:
  "\<not> list_ex init_success [Initialize Denied, StateChange [portA]]
   \<and> connect (Fin 0) (mgr_run [Initialize Denied, StateChange [portA]] new_MidiManager)
       = (new_MidiManager, False)
   \<and> \<not> in_range (Fin 2) (length (devices (mgr_run [Initialize (Granted access2)] new_MidiManager)))
   \<and> connect (Fin 2) (mgr_run [Initialize (Granted access2)] new_MidiManager)
       = (mgr_run [Initialize (Granted access2)] new_MidiManager, False)
   \<and> list_ex init_success [Initialize (Granted access2)]
   \<and> in_range (Fin 1) (length (devices (mgr_run [Initialize (Granted access2)] new_MidiManager)))
   \<and> connect (Fin 1) (mgr_run [Initialize (Granted access2)] new_MidiManager)
       = (\<lparr>midiAccess = Obj \<lparr>outputs = [portA, portB], onstatechange = True\<rparr>,
           midiOutput = Obj portB, devices = [portA, portB], onStateChange = False,
           notified = 0\<rparr>, True)"
  using connect_contract [of "[Initialize Denied, StateChange [portA]]" "Fin 0"
          "mgr_run [Initialize (Granted access2)] new_MidiManager" 1]
        connect_contract [of "[Initialize (Granted access2)]" "Fin 2"
          "mgr_run [Initialize (Granted access2)] new_MidiManager" 1]
        connect_contract [of "[Initialize (Granted access2)]" "Fin 1"
          "mgr_run [Initialize (Granted access2)] new_MidiManager" 1]
  by (simp add: new_MidiManager_def access2_def initialize_def updateDeviceList_def
        statechange_def)

text \<open>
  C9 (as amended). No exception leaves \<^verbatim>\<open>initialize\<close>. When the platform lacks MIDI
  support or denies access it returns false and leaves the manager's state unchanged; that
  state is empty (no access handle, no devices, no connected port) when no earlier
  \<^verbatim>\<open>initialize\<close> of the manager succeeded. On success it returns true, stores the access
  handle with the topology handler installed and sets the device list to the platform's
  outputs.
\<close>

theorem initialize_contract:
  "snd (snd (initialize nav m)) = None
   \<and> (nav = Unsupported \<or> nav = Denied \<longrightarrow> initialize nav m = (m, False, None))
   \<and> ((nav = Unsupported \<or> nav = Denied) \<and> \<not> list_ex init_success evs \<longrightarrow>
        fst (initialize nav (mgr_run evs new_MidiManager)) = mgr_run evs new_MidiManager
        \<and> empty_state (mgr_run evs new_MidiManager))
   \<and> initialize (Granted a) m =
        (m\<lparr>midiAccess := Obj (a\<lparr>onstatechange := True\<rparr>), devices := outputs a\<rparr>,
         True, None)"
proof -
  have 1: "nav = Unsupported \<or> nav = Denied \<longrightarrow> initialize nav m = (m, False, None)"
    by (simp add: initialize_fails)
  have 2: "(nav = Unsupported \<or> nav = Denied) \<and> \<not> list_ex init_success evs \<longrightarrow>
        fst (initialize nav (mgr_run evs new_MidiManager)) = mgr_run evs new_MidiManager
        \<and> empty_state (mgr_run evs new_MidiManager)"
    by (simp add: initialize_fails empty_state_run [OF empty_new])
  show ?thesis
    using 1 2 initialize_no_throw [of nav m] initialize_succeeds [of a m] by blast
qed

theorem initialize_contract_witness:
  "(Denied = Unsupported \<or> Denied = Denied)
   \<and> \<not> list_ex init_success [Initialize Unsupported, Connect (Fin 0)]
   \<and> initialize Denied (mgr_run [Initialize Unsupported, Connect (Fin 0)] new_MidiManager)
       = (new_MidiManager, False, None)
   \<and> empty_state new_MidiManager
   \<and> initialize (Granted access2) new_MidiManager
       = (\<lparr>midiAccess = Obj \<lparr>outputs = [portA, portB], onstatechange = True\<rparr>,
           midiOutput = Null, devices = [portA, portB], onStateChange = False,
           notified = 0\<rparr>, True, None)"
  using initialize_contract [of Denied "mgr_run [Initialize Unsupported, Connect (Fin 0)] new_MidiManager"
          "[Initialize Unsupported, Connect (Fin 0)]" access2]
        initialize_contract [of Denied new_MidiManager "[]" access2]
  by (simp add: new_MidiManager_def access2_def initialize_def connect_def)

text \<open>
  C9 as stated fails for a repeated \<^verbatim>\<open>initialize\<close>: after a successful one and a
  \<^verbatim>\<open>connect(0)\<close>, a denied request returns false and keeps the access handle, both devices
  and the connected port.
\<close>

theorem reinitialize_counterexample:
  "initialize Denied (mgr_run [Initialize (Granted access2), Connect (Fin 0)] new_MidiManager)
     = (\<lparr>midiAccess = Obj \<lparr>outputs = [portA, portB], onstatechange = True\<rparr>,
         midiOutput = Obj portA, devices = [portA, portB], onStateChange = False,
         notified = 0\<rparr>, False, None)
   \<and> \<not> empty_state \<lparr>midiAccess = Obj \<lparr>outputs = [portA, portB], onstatechange = True\<rparr>,
         midiOutput = Obj portA, devices = [portA, portB], onStateChange = False,
         notified = 0\<rparr>"
  by (simp add: new_MidiManager_def access2_def initialize_def updateDeviceList_def
        connect_def js_ge_def js_length_def empty_state_def)

section \<open>Sessions of an endpoint\<close>

lemma ToInt32_127: "ToInt32 (Fin 0x7F) = 127"
  using ToInt32_small [of 127] by simp

lemma is_byte7_and_7F: "is_byte7 (js_and x (Fin 0x7F))"
proof -
  have "0 \<le> ToInt32 x AND 127" by simp
  moreover have "ToInt32 x AND 127 \<le> 127" by (rule AND_upper2) simp
  ultimately show ?thesis
    by (simp only: js_and_def ToInt32_127 is_byte7_of_int)
qed

lemma sendPitchBend_bound:
  "midiOutput (this s) = Obj p \<Longrightarrow>
   sendPitchBend val s =
     Inr (s\<lparr>sent := sent s @
            [(p, [js_add (Fin 0xE0) (channel (this s)),
                  js_and (pitchBend14 val) (Fin 0x7F),
                  js_and (js_shr (pitchBend14 val) (Fin 7)) (Fin 0x7F)])]\<rparr>)"
  by (simp add: sendPitchBend_def Let_def)

lemma playNote_bound:
  "midiOutput (this s) = Obj p \<Longrightarrow>
   playNote note velocity duration s =
     Inr (s\<lparr>sent := sent s @
            [(p, [js_add (Fin 0x90) (channel (this s)), floor_clamp7 note, floor_clamp7 velocity])],
           timers := timers s @ [(duration, note)]\<rparr>)"
  by (simp add: playNote_def noteOn_bound)

lemma sendRawMIDI_bound:
  "midiOutput (this s) = Obj p \<Longrightarrow>
   sendRawMIDI data s = Inr (s\<lparr>sent := sent s @ [(p, data)]\<rparr>)"
  by (simp add: sendRawMIDI_def)

lemma deferred_noteOff_bound:
  "midiOutput (this s) = Obj p \<Longrightarrow>
   deferred_noteOff note s =
     Inr (s\<lparr>sent := sent s @
            [(p, [js_add (Fin 0x80) (channel (this s)), floor_clamp7 note, Fin 0])]\<rparr>)"
  using noteOff_bound [of s p "note" "Fin 0"] by (simp add: deferred_noteOff_def)

lemma deferred_noteOff_unbound:
  "\<not> truthy (midiOutput (this s)) \<Longrightarrow> deferred_noteOff note s = Inr s"
  by (simp add: deferred_noteOff_def)

lemma unbound_exec:
  "\<not> truthy (midiOutput (this s)) \<Longrightarrow>
   exec e s = Inr (case e of
       SetPort r \<Rightarrow> s\<lparr>this := (this s)\<lparr>midiOutput := r\<rparr>\<rparr>
     | TimerFires i \<Rightarrow>
         (if i < length (timers s)
          then s\<lparr>timers := take i (timers s) @ drop (Suc i) (timers s)\<rparr> else s)
     | _ \<Rightarrow> s)"
  by (cases e)
     (simp_all add: noteOn_def noteOff_def playNote_def sendCC_def sendProgramChange_def
        sendPitchBend_def sendRawMIDI_def fire_def deferred_noteOff_def)

lemma list_all_remove_nth:
  "list_all P xs \<Longrightarrow> list_all P (take i xs) \<and> list_all P (drop j xs)"
  by (auto simp: list_all_iff dest: in_set_takeD in_set_dropD)

lemma exec_unbound_wf:
  assumes "\<not> truthy (midiOutput (this s))" "wf_state s"
  shows "\<exists>s'. exec e s = Inr s' \<and> wf_state s'"
proof -
  have "wf_state (case e of
       SetPort r \<Rightarrow> s\<lparr>this := (this s)\<lparr>midiOutput := r\<rparr>\<rparr>
     | TimerFires i \<Rightarrow>
         (if i < length (timers s)
          then s\<lparr>timers := take i (timers s) @ drop (Suc i) (timers s)\<rparr> else s)
     | _ \<Rightarrow> s)"
    using assms(2) by (cases e) (simp_all add: wf_state_def list_all_remove_nth)
  then show ?thesis using unbound_exec [OF assms(1), of e] by simp
qed

lemma exec_bound_wf:
  assumes b: "midiOutput (this s) = Obj p" and w: "wf_state s" and e: "encodes e"
  shows "\<exists>s'. exec e s = Inr s' \<and> wf_state s'"
proof (cases e)
  case (NoteOn n v)
  then show ?thesis using b w e
    by (simp add: noteOn_bound wf_state_def data_bytes_ok_def is_byte7_floor_clamp7)
next
  case (NoteOff n v)
  then show ?thesis using b w e
    by (simp add: noteOff_bound wf_state_def data_bytes_ok_def is_byte7_floor_clamp7)
next
  case (PlayNote n v d)
  then show ?thesis using b w e
    by (simp add: playNote_bound wf_state_def data_bytes_ok_def is_byte7_floor_clamp7)
next
  case (SendCC c v)
  then show ?thesis using b w e
    by (simp add: sendCC_bound wf_state_def data_bytes_ok_def is_byte7_floor_clamp7)
next
  case (SendProgramChange c)
  then show ?thesis using b w e
    by (simp add: sendProgramChange_bound wf_state_def data_bytes_ok_def is_byte7_floor_clamp7)
next
  case (SendPitchBend v)
  then show ?thesis using b w
    by (simp add: sendPitchBend_bound wf_state_def data_bytes_ok_def is_byte7_and_7F)
next
  case (SendRawMIDI d)
  then show ?thesis using b w e
    by (simp add: sendRawMIDI_bound wf_state_def)
next
  case (TimerFires i)
  show ?thesis
  proof (cases "i < length (timers s)")
    case True
    let ?s = "s\<lparr>timers := take i (timers s) @ drop (Suc i) (timers s)\<rparr>"
    have n: "snd (timers s ! i) \<noteq> NaN"
      using w True by (simp add: wf_state_def list_all_length)
    have "midiOutput (this ?s) = Obj p" using b by simp
    then have "deferred_noteOff (snd (timers s ! i)) ?s =
       Inr (?s\<lparr>sent := sent ?s @
            [(p, [js_add (Fin 0x80) (channel (this ?s)), floor_clamp7 (snd (timers s ! i)), Fin 0])]\<rparr>)"
      by (rule deferred_noteOff_bound)
    moreover have "wf_state (?s\<lparr>sent := sent ?s @
            [(p, [js_add (Fin 0x80) (channel (this ?s)), floor_clamp7 (snd (timers s ! i)), Fin 0])]\<rparr>)"
      using w n by (simp add: wf_state_def data_bytes_ok_def is_byte7_floor_clamp7 list_all_remove_nth)
    ultimately show ?thesis using TimerFires True by (simp add: fire_def)
  next
    case False
    then show ?thesis using TimerFires w by (simp add: fire_def)
  qed
next
  case (SetPort r)
  then show ?thesis using w by (simp add: wf_state_def)
qed

lemma exec_wf:
  "wf_state s \<Longrightarrow> encodes e \<Longrightarrow> \<exists>s'. exec e s = Inr s' \<and> wf_state s'"
  by (cases "midiOutput (this s)") (simp_all add: exec_unbound_wf exec_bound_wf)

lemma run_wf:
  "wf_state s \<Longrightarrow> list_all encodes evs \<Longrightarrow> \<exists>s'. run evs s = Inr s' \<and> wf_state s'"
proof (induction evs arbitrary: s)
  case Nil
  then show ?case by simp
next
  case (Cons e evs)
  then obtain s1 where s1: "exec e s = Inr s1" "wf_state s1"
    using exec_wf [of s e] by auto
  then obtain s' where "run evs s1 = Inr s'" "wf_state s'"
    using Cons by auto
  then show ?case using s1 by simp
qed

text \<open>
  C3 (as amended). In every session of an endpoint, started from any endpoint with nothing
  sent, no call raises an error, and every byte after the status byte of every message
  handed to a port is an integer in \<open>[0,127]\<close>, provided no NaN is passed to \<^verbatim>\<open>noteOn\<close>,
  \<^verbatim>\<open>noteOff\<close>, \<^verbatim>\<open>playNote\<close>, \<^verbatim>\<open>sendCC\<close> or \<^verbatim>\<open>sendProgramChange\<close> and the data
  given to \<^verbatim>\<open>sendRawMIDI\<close> is itself of that form. \<^verbatim>\<open>sendPitchBend\<close> needs no proviso:
  its 14-bit value is split into two 7-bit bytes for every argument. The deferred
  \<^verbatim>\<open>noteOff\<close> of \<^verbatim>\<open>playNote\<close> is covered as well.
\<close>

theorem outbound_data_bytes:
  assumes "list_all encodes evs"
  shows "\<exists>s. run evs (new_env b) = Inr s
           \<and> (\<forall>pm \<in> set (sent s). list_all is_byte7 (tl (snd pm)))"
proof -
  have "wf_state (new_env b)" by (simp add: wf_state_def new_env_def)
  then obtain s where "run evs (new_env b) = Inr s" "wf_state s"
    using run_wf assms by blast
  then show ?thesis by (auto simp: wf_state_def list_all_iff data_bytes_ok_def)
qed

theorem outbound_data_bytes_witness:
  "list_all encodes
     [PlayNote (Fin (121 / 2)) (Fin 300) (Fin 50), SendPitchBend NaN, SendRawMIDI [Fin 0xF8],
      SetPort (Obj portB), TimerFires 0, SendCC (Fin 7) NInf]
   \<and> run [PlayNote (Fin (121 / 2)) (Fin 300) (Fin 50), SendPitchBend NaN,
           SendRawMIDI [Fin 0xF8], SetPort (Obj portB), TimerFires 0, SendCC (Fin 7) NInf]
          (new_env (new_TR8S (Obj portA) None))
       = Inr \<lparr>this = \<lparr>midiOutput = Obj portB, channel = Fin 9\<rparr>,
              sent = [(portA, [Fin 0x99, Fin 60, Fin 127]), (portA, [Fin 0xE9, Fin 0, Fin 0]),
                      (portA, [Fin 0xF8]), (portB, [Fin 0x89, Fin 60, Fin 0]),
                      (portB, [Fin 0xB9, Fin 7, Fin 0])],
              timers = []\<rparr>
   \<and> list_all (\<lambda>pm. list_all is_byte7 (tl (snd pm)))
         [(portA, [Fin 0x99, Fin 60, Fin 127]), (portA, [Fin 0xE9, Fin 0, Fin 0]),
          (portA, [Fin 0xF8]), (portB, [Fin 0x89, Fin 60, Fin 0 :: jsnum]),
          (portB, [Fin 0xB9, Fin 7, Fin 0])]"
  using outbound_data_bytes [of
     "[PlayNote (Fin (121 / 2)) (Fin 300) (Fin 50), SendPitchBend NaN, SendRawMIDI [Fin 0xF8],
      SetPort (Obj portB), TimerFires 0, SendCC (Fin 7) NInf]" "new_TR8S (Obj portA) None"]
  by (simp add: concrete_endpoint data_bytes_ok_def noteOn_def noteOff_def playNote_def
        sendCC_def sendPitchBend_def sendRawMIDI_def fire_def deferred_noteOff_def
        pitchBend14_def js_and_def js_shr_def trunc_def floor_eq_iff)

text \<open>
  C3 as stated fails on the status byte, which is 0x90 = 144 for \<^verbatim>\<open>noteOn\<close> on channel 1;
  on \<^verbatim>\<open>sendRawMIDI\<close>, which forwards 300 unchanged; and on a NaN argument.
\<close>

theorem status_byte_counterexample:
  "noteOn (Fin 60) (Fin 100) (new_env (new_BaseSynth (Obj portA) (Some (Fin 1))))
     = Inr \<lparr>this = new_BaseSynth (Obj portA) (Some (Fin 1)),
            sent = [(portA, [Fin 144, Fin 60, Fin 100])], timers = []\<rparr>
   \<and> \<not> is_byte7 (Fin 144)
   \<and> sendRawMIDI [Fin 240, Fin 300] (new_env (new_BaseSynth (Obj portA) (Some (Fin 1))))
     = Inr \<lparr>this = new_BaseSynth (Obj portA) (Some (Fin 1)),
            sent = [(portA, [Fin 240, Fin 300])], timers = []\<rparr>
   \<and> \<not> is_byte7 (Fin 300)
   \<and> sendCC (Fin 7) NaN (new_env (new_BaseSynth (Obj portA) (Some (Fin 1))))
     = Inr \<lparr>this = new_BaseSynth (Obj portA) (Some (Fin 1)),
            sent = [(portA, [Fin 176, Fin 7, NaN])], timers = []\<rparr>"
  by (simp add: noteOn_def sendRawMIDI_def sendCC_def concrete_endpoint)

text \<open>
  C8. \<^verbatim>\<open>playNote(note, velocity, duration)\<close> on a bound endpoint hands the \<^verbatim>\<open>noteOn\<close>
  message to the port at once and schedules one task with delay \<open>duration\<close> that captures
  \<open>note\<close>. When that task fires, in whatever state the endpoint then is, the task leaves the
  pending list; the message \<^verbatim>\<open>noteOff(note, 0)\<close> goes to the port bound at that moment if
  there is one, and nothing is sent if there is none.
\<close>

theorem playNote_schedule:
  assumes "midiOutput (this s) = Obj p"
  shows "playNote n velocity duration s =
           Inr (s\<lparr>sent := sent s @
                  [(p, [js_add (Fin 0x90) (channel (this s)),
                        floor_clamp7 n, floor_clamp7 velocity])],
                 timers := timers s @ [(duration, n)]\<rparr>)
       \<and> (i < length (timers s') \<and> timers s' ! i = (duration, n) \<longrightarrow>
            fire i s' =
              Inr (case midiOutput (this s') of
                     Obj q \<Rightarrow>
                       s'\<lparr>timers := take i (timers s') @ drop (Suc i) (timers s'),
                          sent := sent s' @
                            [(q, [js_add (Fin 0x80) (channel (this s')), floor_clamp7 n, Fin 0])]\<rparr>
                   | _ \<Rightarrow> s'\<lparr>timers := take i (timers s') @ drop (Suc i) (timers s')\<rparr>))"
proof -
  have "i < length (timers s') \<Longrightarrow> timers s' ! i = (duration, n) \<Longrightarrow>
            fire i s' =
              Inr (case midiOutput (this s') of
                     Obj q \<Rightarrow>
                       s'\<lparr>timers := take i (timers s') @ drop (Suc i) (timers s'),
                          sent := sent s' @
                            [(q, [js_add (Fin 0x80) (channel (this s')), floor_clamp7 n, Fin 0])]\<rparr>
                   | _ \<Rightarrow> s'\<lparr>timers := take i (timers s') @ drop (Suc i) (timers s')\<rparr>)"
    by (cases "midiOutput (this s')")
       (simp_all add: fire_def deferred_noteOff_bound deferred_noteOff_unbound)
  then show ?thesis using assms by (simp add: playNote_bound)
qed

theorem playNote_schedule_witness:
  "midiOutput (this (new_env (new_BaseSynth (Obj portA) (Some (Fin 1))))) = Obj portA
   \<and> playNote (Fin 60) (Fin 100) (Fin 50) (new_env (new_BaseSynth (Obj portA) (Some (Fin 1))))
       = Inr \<lparr>this = \<lparr>midiOutput = Obj portA, channel = Fin 0\<rparr>,
              sent = [(portA, [Fin 0x90, Fin 60, Fin 100])], timers = [(Fin 50, Fin 60)]\<rparr>
   \<and> 0 < length (timers \<lparr>this = \<lparr>midiOutput = Obj portA, channel = Fin 0\<rparr>,
              sent = [(portA, [Fin 0x90, Fin 60, Fin 100])], timers = [(Fin 50, Fin 60)]\<rparr>)
   \<and> fire 0 \<lparr>this = \<lparr>midiOutput = Obj portA, channel = Fin 0\<rparr>,
              sent = [(portA, [Fin 0x90, Fin 60, Fin 100])], timers = [(Fin 50, Fin 60)]\<rparr>
       = Inr \<lparr>this = \<lparr>midiOutput = Obj portA, channel = Fin 0\<rparr>,
              sent = [(portA, [Fin 0x90, Fin 60, Fin 100]), (portA, [Fin 0x80, Fin 60, Fin 0])],
              timers = []\<rparr>
   \<and> fire 0 \<lparr>this = \<lparr>midiOutput = Null, channel = Fin 0\<rparr>,
              sent = [(portA, [Fin 0x90, Fin 60, Fin 100])], timers = [(Fin 50, Fin 60)]\<rparr>
       = Inr \<lparr>this = \<lparr>midiOutput = Null, channel = Fin 0\<rparr>,
              sent = [(portA, [Fin 0x90, Fin 60, Fin 100])], timers = []\<rparr>"
  using playNote_schedule [where s = "new_env (new_BaseSynth (Obj portA) (Some (Fin 1)))"
          and p = portA and n = "Fin 60" and velocity = "Fin 100" and duration = "Fin 50"
          and i = 0
          and s' = "\<lparr>this = \<lparr>midiOutput = Obj portA, channel = Fin 0\<rparr>,
              sent = [(portA, [Fin 0x90, Fin 60, Fin 100])], timers = [(Fin 50, Fin 60)]\<rparr>"]
        playNote_schedule [where s = "new_env (new_BaseSynth (Obj portA) (Some (Fin 1)))"
          and p = portA and n = "Fin 60" and velocity = "Fin 100" and duration = "Fin 50"
          and i = 0
          and s' = "\<lparr>this = \<lparr>midiOutput = Null, channel = Fin 0\<rparr>,
              sent = [(portA, [Fin 0x90, Fin 60, Fin 100])], timers = [(Fin 50, Fin 60)]\<rparr>"]
  by (simp add: concrete_endpoint)

text \<open>
  C10. For every note argument, NaN included, \<^verbatim>\<open>playNote\<close> followed by the firing of its
  task, with the port still bound or rebound to another port in between, sends a
  \<^verbatim>\<open>noteOn\<close> and a \<^verbatim>\<open>noteOff\<close> that carry the same note byte, the floor of the argument
  clamped to \<open>[0,127]\<close>, on the same channel, and the \<^verbatim>\<open>noteOff\<close> has velocity byte 0.
\<close>

theorem on_off_pair:
  assumes "midiOutput (this s) = Obj p"
  shows "run [PlayNote n velocity duration, SetPort (Obj q), TimerFires (length (timers s))] s
           = Inr (s\<lparr>this := (this s)\<lparr>midiOutput := Obj q\<rparr>,
                   sent := sent s @
                     [(p, [js_add (Fin 0x90) (channel (this s)),
                           floor_clamp7 n, floor_clamp7 velocity]),
                      (q, [js_add (Fin 0x80) (channel (this s)), floor_clamp7 n, Fin 0])]\<rparr>)
       \<and> run [PlayNote n velocity duration, TimerFires (length (timers s))] s
           = Inr (s\<lparr>sent := sent s @
                     [(p, [js_add (Fin 0x90) (channel (this s)),
                           floor_clamp7 n, floor_clamp7 velocity]),
                      (p, [js_add (Fin 0x80) (channel (this s)), floor_clamp7 n, Fin 0])]\<rparr>)"
proof -
  let ?on = "(p, [js_add (Fin 0x90) (channel (this s)), floor_clamp7 n, floor_clamp7 velocity])"
  let ?s1 = "s\<lparr>sent := sent s @ [?on], timers := timers s @ [(duration, n)]\<rparr>"
  have 1: "playNote n velocity duration s = Inr ?s1"
    using assms by (rule playNote_bound)
  have 2: "fire (length (timers s)) (?s1\<lparr>this := (this ?s1)\<lparr>midiOutput := Obj q\<rparr>\<rparr>)
      = Inr (s\<lparr>this := (this s)\<lparr>midiOutput := Obj q\<rparr>,
                   sent := sent s @
                     [?on, (q, [js_add (Fin 0x80) (channel (this s)), floor_clamp7 n, Fin 0])]\<rparr>)"
    by (simp add: fire_def deferred_noteOff_bound)
  have 3: "fire (length (timers s)) ?s1
      = Inr (s\<lparr>sent := sent s @
                     [?on, (p, [js_add (Fin 0x80) (channel (this s)), floor_clamp7 n, Fin 0])]\<rparr>)"
    using assms by (simp add: fire_def deferred_noteOff_bound)
  show ?thesis using 1 2 3 by simp
qed

theorem on_off_pair_witness:
  "midiOutput (this (new_env (new_BaseSynth (Obj portA) (Some (Fin 1))))) = Obj portA
   \<and> run [PlayNote (Fin (257 / 2)) (Fin 100) (Fin 50), TimerFires 0]
          (new_env (new_BaseSynth (Obj portA) (Some (Fin 1))))
       = Inr \<lparr>this = \<lparr>midiOutput = Obj portA, channel = Fin 0\<rparr>,
              sent = [(portA, [Fin 0x90, Fin 127, Fin 100]), (portA, [Fin 0x80, Fin 127, Fin 0])],
              timers = []\<rparr>
   \<and> run [PlayNote NaN (Fin 100) (Fin 50), SetPort (Obj portB), TimerFires 0]
          (new_env (new_BaseSynth (Obj portA) (Some (Fin 1))))
       = Inr \<lparr>this = \<lparr>midiOutput = Obj portB, channel = Fin 0\<rparr>,
              sent = [(portA, [Fin 0x90, NaN, Fin 100]), (portB, [Fin 0x80, NaN, Fin 0])],
              timers = []\<rparr>"
  using on_off_pair [where s = "new_env (new_BaseSynth (Obj portA) (Some (Fin 1)))"
          and p = portA and n = "Fin (257 / 2)" and velocity = "Fin 100"
          and duration = "Fin 50" and q = portB]
        on_off_pair [where s = "new_env (new_BaseSynth (Obj portA) (Some (Fin 1)))"
          and p = portA and n = NaN and velocity = "Fin 100" and duration = "Fin 50"
          and q = portB]
  by (simp add: concrete_endpoint floor_eq_iff)

end
